theory Spec2Isabelle
  imports Complex_Main
begin

section \<open>Data model of the backend (server.js)\<close>

text \<open>
  The Express backend keeps its data in two PostgreSQL tables and talks to the
  OpenWeather HTTP API. The tables are lists of rows in insertion order; the HTTP API is
  an oracle indexed by the number of calls made so far, so that two calls for the same
  place may be answered differently. Numbers of the JSON payloads are reals (IEEE
  rounding is not modelled); JavaScript integers are \<open>int\<close>, and \<open>NaN\<close>/\<open>undefined\<close> is
  \<open>None\<close>.
\<close>

datatype js_error = Error string | TypeError | AxiosError

fun message :: "js_error \<Rightarrow> string" where
  "message (Error m) = m"
| "message TypeError = ''TypeError''"
| "message AxiosError = ''Request failed''"

text \<open>The outcome of \<open>await axios.get(url)\<close>: rejected, or resolved with \<open>.data\<close>.\<close>

datatype 'a http = Failed | Ok 'a

record geo_candidate =
  geo_name :: string
  geo_state :: "string option"
  geo_country :: string
  geo_lat :: real
  geo_lon :: real

record weather_desc =
  w_main :: string
  w_description :: string
  w_icon :: string

text \<open>One element of \<open>weatherResponse.data.list\<close>.\<close>

record forecast_item =
  dt_txt :: string
  main_temp :: real
  main_feels_like :: real
  main_humidity :: real
  main_pressure :: real
  item_wind_speed :: real
  item_wind_deg :: real
  weather :: "weather_desc list"
  item_visibility :: real
  clouds_all :: real

text \<open>One element of \<open>weather_data\<close>, as \<open>getWeatherData\<close> builds it.\<close>

record sample =
  date :: "string option"
  time :: "string option"
  temperature :: int
  feels_like :: int
  humidity :: real
  pressure :: real
  wind_speed :: real
  wind_direction :: real
  weather_main :: string
  weather_description :: string
  weather_icon :: string
  visibility :: real
  clouds :: real

record coordinates =
  lat :: real
  lon :: real

text \<open>What \<open>getWeatherData\<close> returns; stored as the \<open>weather_data\<close> column.\<close>

record weather_result =
  wr_location :: string
  wr_country :: string
  wr_coordinates :: coordinates
  weather_data :: "sample list"

text \<open>What \<open>getLocationDetails\<close> returns; stored as the \<open>maps_data\<close> column.\<close>

record location_details =
  city :: string
  state :: string
  country :: string
  formatted_address :: string
  ld_coordinates :: "coordinates option"

text \<open>A row of \<open>weather_records\<close> and a row of \<open>users\<close>.\<close>

record weather_record =
  rec_id :: nat
  rec_user_id :: nat
  rec_location :: string
  rec_start_date :: string
  rec_end_date :: string
  rec_weather_data :: weather_result
  rec_maps_data :: location_details
  rec_created_at :: int
  rec_updated_at :: int

record user_row =
  usr_id :: nat
  usr_username :: string
  usr_email :: string
  usr_password_hash :: string

text \<open>
  The columns the list endpoint selects (all but \<open>user_id\<close>), and the record a create or
  update answers with: the \<open>RETURNING\<close> columns merged with the fetched payloads
  (\<open>sv_stamp\<close> is \<open>created_at\<close> for a create and \<open>updated_at\<close> for an update).
\<close>

record listed_record =
  ls_id :: nat
  ls_location :: string
  ls_start_date :: string
  ls_end_date :: string
  ls_weather_data :: weather_result
  ls_maps_data :: location_details
  ls_created_at :: int
  ls_updated_at :: int

record saved_record =
  sv_id :: nat
  sv_location :: string
  sv_start_date :: string
  sv_end_date :: string
  sv_stamp :: int
  sv_weather_data :: weather_result
  sv_maps_data :: location_details

record pagination =
  pg_page :: int
  pg_limit :: int
  pg_total :: int
  pg_pages :: int

datatype body =
    ErrorBody string
  | MessageBody string
  | CreatedBody string saved_record
  | UpdatedBody string saved_record
  | PageBody "listed_record list" pagination
  | RowBody weather_record
  | JsonExport "weather_record list"
  | CsvExport "weather_record list"
  | XmlExport "weather_record list"
  | LoginBody string nat string string string

record response =
  status :: nat
  body :: body

text \<open>The body of a create or update request; a field is a JSON string or absent.\<close>

record weather_body =
  location :: "string option"
  startDate :: "string option"
  endDate :: "string option"

text \<open>
  What the code takes from its libraries and from JavaScript itself:
  \<open>validator.isDate\<close>, \<open>new Date(s).getTime()\<close> (\<open>None\<close> for an invalid date),
  \<open>bcrypt.compare\<close> and \<open>jwt.sign\<close>.
\<close>

record platform =
  isDate :: "string \<Rightarrow> bool"
  newDate :: "string \<Rightarrow> int option"
  bcrypt_compare :: "string \<Rightarrow> string \<Rightarrow> bool"
  jwt_sign :: "nat \<Rightarrow> string \<Rightarrow> string"

text \<open>
  The OpenWeather side: the configured key, and the answer to the \<open>n\<close>-th geocoding and
  the \<open>n\<close>-th forecast request.
\<close>

record upstream =
  api_key :: "string option"
  geo_direct :: "nat \<Rightarrow> string \<Rightarrow> geo_candidate list http"
  forecast :: "nat \<Rightarrow> real \<Rightarrow> real \<Rightarrow> forecast_item list http"

text \<open>
  The server's state: both tables, the \<open>SERIAL\<close> sequence of record ids, and counters of
  the gateway requests sent and of the write statements (\<open>INSERT\<close>, \<open>UPDATE\<close>,
  \<open>DELETE\<close>) issued.
\<close>

record server =
  users :: "user_row list"
  weather_records :: "weather_record list"
  next_record_id :: nat
  geo_calls :: nat
  forecast_calls :: nat
  writes :: nat

section \<open>Input validation middleware\<close>

text \<open>
  Strings are ASCII: \<open>trim\<close> removes the ASCII white space at both ends, and
  \<open>validator.isLength\<close> compares the number of characters with the bounds.
\<close>

definition is_space :: "char \<Rightarrow> bool" where
  "is_space c \<longleftrightarrow> c \<in> set [CHR 0x09, CHR 0x0A, CHR 0x0B, CHR 0x0C, CHR 0x0D, CHR '' '']"

definition trim :: "string \<Rightarrow> string" where
  "trim s = rev (dropWhile is_space (rev (dropWhile is_space s)))"

definition isLength :: "string \<Rightarrow> nat \<Rightarrow> nat \<Rightarrow> bool" where
  "isLength str mn mx \<longleftrightarrow> mn \<le> length str \<and> length str \<le> mx"

text \<open>\<open>v && p(v)\<close> for a string field: absent and empty strings are falsy.\<close>

definition present_and :: "string option \<Rightarrow> (string \<Rightarrow> bool) \<Rightarrow> bool" where
  "present_and v p = (case v of None \<Rightarrow> False | Some s \<Rightarrow> s \<noteq> [] \<and> p s)"

text \<open>\<open>a > b\<close> on time values: false as soon as one side is \<open>NaN\<close>.\<close>

fun js_gt :: "int option \<Rightarrow> int option \<Rightarrow> bool" where
  "js_gt (Some a) (Some b) = (a > b)"
| "js_gt _ _ = False"

definition bad_request :: "string \<Rightarrow> response" where
  "bad_request m = \<lparr>status = 400, body = ErrorBody m\<rparr>"

definition validateWeatherData :: "platform \<Rightarrow> int \<Rightarrow> weather_body \<Rightarrow> response + unit" where
  "validateWeatherData pf now b =
     (if \<not> present_and (location b) (\<lambda>l. isLength (trim l) 2 100) then
        Inl (bad_request ''Valid location is required (2-100 characters)'')
      else if \<not> present_and (startDate b) (isDate pf) then
        Inl (bad_request ''Valid start date is required'')
      else if \<not> present_and (endDate b) (isDate pf) then
        Inl (bad_request ''Valid end date is required'')
      else
        let start = Option.bind (startDate b) (newDate pf);
            end = Option.bind (endDate b) (newDate pf)
        in if js_gt start end then
             Inl (bad_request ''Start date must be before end date'')
           else if js_gt end (Some (now + 14 * 24 * 60 * 60 * 1000)) then
             Inl (bad_request ''End date cannot be more than 14 days in the future'')
           else Inr ())"

section \<open>Geocode and forecast gateway\<close>

text \<open>\<open>!API_KEY\<close>: the variable is unset or empty.\<close>

definition no_key :: "string option \<Rightarrow> bool" where
  "no_key k \<longleftrightarrow> k = None \<or> k = Some []"

definition fallback_details :: "string \<Rightarrow> location_details" where
  "fallback_details loc =
     \<lparr>city = loc, state = [], country = ''Unknown'', formatted_address = loc,
      ld_coordinates = None\<rparr>"

text \<open>\<open>locationData.state || ''\<close> and the template of \<open>formatted_address\<close>.\<close>

definition state_or_empty :: "string option \<Rightarrow> string" where
  "state_or_empty s = (case s of None \<Rightarrow> [] | Some t \<Rightarrow> t)"

definition resolved_details :: "geo_candidate \<Rightarrow> location_details" where
  "resolved_details c =
     \<lparr>city = geo_name c, state = state_or_empty (geo_state c), country = geo_country c,
      formatted_address =
        geo_name c @ (if state_or_empty (geo_state c) \<noteq> [] then '', '' @ state_or_empty (geo_state c) else [])
          @ '', '' @ geo_country c,
      ld_coordinates = Some \<lparr>lat = geo_lat c, lon = geo_lon c\<rparr>\<rparr>"

text \<open>The body of the \<open>try\<close> block of \<open>getLocationDetails\<close>.\<close>

definition getLocationDetails_try ::
  "upstream \<Rightarrow> server \<Rightarrow> string \<Rightarrow> (js_error + location_details) \<times> server" where
  "getLocationDetails_try gw srv loc =
     (if no_key (api_key gw) then (Inr (fallback_details loc), srv)
      else
        let srv1 = srv\<lparr>geo_calls := geo_calls srv + 1\<rparr> in
        case geo_direct gw (geo_calls srv) loc of
          Failed \<Rightarrow> (Inl AxiosError, srv1)
        | Ok cands \<Rightarrow>
            (case cands of
               [] \<Rightarrow> (Inr (fallback_details loc), srv1)
             | c # _ \<Rightarrow> (Inr (resolved_details c), srv1)))"

text \<open>The whole function: the \<open>catch\<close> block answers with the basic details.\<close>

definition getLocationDetails ::
  "upstream \<Rightarrow> server \<Rightarrow> string \<Rightarrow> (js_error + location_details) \<times> server" where
  "getLocationDetails gw srv loc =
     (case getLocationDetails_try gw srv loc of
        (Inl e, srv1) \<Rightarrow> (Inr (fallback_details loc), srv1)
      | (Inr d, srv1) \<Rightarrow> (Inr d, srv1))"

text \<open>\<open>str.split(' ')\<close> and reading an element that may be missing.\<close>

fun split_on :: "char \<Rightarrow> string \<Rightarrow> string list" where
  "split_on c [] = [[]]"
| "split_on c (x # xs) =
     (if x = c then [] # split_on c xs
      else (case split_on c xs of
              [] \<Rightarrow> [[x]]
            | w # ws \<Rightarrow> (x # w) # ws))"

fun nth_opt :: "'a list \<Rightarrow> nat \<Rightarrow> 'a option" where
  "nth_opt [] n = None"
| "nth_opt (x # xs) 0 = Some x"
| "nth_opt (x # xs) (Suc n) = nth_opt xs n"

text \<open>\<open>Math.round\<close> rounds half up.\<close>

definition Math_round :: "real \<Rightarrow> int" where
  "Math_round x = \<lfloor>x + 1 / 2\<rfloor>"

text \<open>
  \<open>list.slice(0, end)\<close>: a negative \<open>end\<close> counts from the end of the list, \<open>NaN\<close> is 0.
\<close>

definition slice0 :: "'a list \<Rightarrow> int option \<Rightarrow> 'a list" where
  "slice0 xs e =
     (case e of
        None \<Rightarrow> []
      | Some n \<Rightarrow> if n < 0 then take (nat (int (length xs) + n)) xs else take (nat n) xs)"

definition times8 :: "int option \<Rightarrow> int option" where
  "times8 days = map_option (\<lambda>d. d * 8) days"

text \<open>
  The arrow function mapped over the slice. \<open>item.weather[0].main\<close> throws a TypeError
  when \<open>weather\<close> is empty, which is \<open>None\<close> here.
\<close>

definition toSample :: "forecast_item \<Rightarrow> sample option" where
  "toSample item =
     (case weather item of
        [] \<Rightarrow> None
      | w # _ \<Rightarrow>
          Some \<lparr>date = nth_opt (split_on CHR '' '' (dt_txt item)) 0,
                time = nth_opt (split_on CHR '' '' (dt_txt item)) 1,
                temperature = Math_round (main_temp item),
                feels_like = Math_round (main_feels_like item),
                humidity = main_humidity item,
                pressure = main_pressure item,
                wind_speed = item_wind_speed item,
                wind_direction = item_wind_deg item,
                weather_main = w_main w,
                weather_description = w_description w,
                weather_icon = w_icon w,
                visibility = item_visibility item / 1000,
                clouds = clouds_all item\<rparr>)"

text \<open>\<open>xs.map(f)\<close> where \<open>f\<close> may throw: the first throw aborts the whole map.\<close>

fun map_throwing :: "('a \<Rightarrow> 'b option) \<Rightarrow> 'a list \<Rightarrow> 'b list option" where
  "map_throwing f [] = Some []"
| "map_throwing f (x # xs) =
     (case f x of
        None \<Rightarrow> None
      | Some y \<Rightarrow> (case map_throwing f xs of None \<Rightarrow> None | Some ys \<Rightarrow> Some (y # ys)))"

text \<open>The body of the \<open>try\<close> block of \<open>getWeatherData\<close>.\<close>

definition getWeatherData_try ::
  "upstream \<Rightarrow> server \<Rightarrow> string \<Rightarrow> int option \<Rightarrow> (js_error + weather_result) \<times> server" where
  "getWeatherData_try gw srv loc days =
     (if no_key (api_key gw) then (Inl (Error ''OpenWeather API key not configured''), srv)
      else
        let srv1 = srv\<lparr>geo_calls := geo_calls srv + 1\<rparr> in
        case geo_direct gw (geo_calls srv) loc of
          Failed \<Rightarrow> (Inl AxiosError, srv1)
        | Ok cands \<Rightarrow>
            (case cands of
               [] \<Rightarrow> (Inl (Error ''Location not found''), srv1)
             | c # _ \<Rightarrow>
                 let srv2 = srv1\<lparr>forecast_calls := forecast_calls srv1 + 1\<rparr> in
                 (case forecast gw (forecast_calls srv1) (geo_lat c) (geo_lon c) of
                    Failed \<Rightarrow> (Inl AxiosError, srv2)
                  | Ok items \<Rightarrow>
                      (case map_throwing toSample (slice0 items (times8 days)) of
                         None \<Rightarrow> (Inl TypeError, srv2)
                       | Some samples \<Rightarrow>
                           (Inr \<lparr>wr_location = geo_name c, wr_country = geo_country c,
                                 wr_coordinates = \<lparr>lat = geo_lat c, lon = geo_lon c\<rparr>,
                                 weather_data = samples\<rparr>, srv2)))))"

text \<open>
  The whole function: the \<open>catch\<close> block replaces whatever was thrown inside the \<open>try\<close>
  block, the two \<open>throw new Error(...)\<close> of the block included.
\<close>

definition getWeatherData ::
  "upstream \<Rightarrow> server \<Rightarrow> string \<Rightarrow> int option \<Rightarrow> (js_error + weather_result) \<times> server" where
  "getWeatherData gw srv loc days =
     (case getWeatherData_try gw srv loc days of
        (Inl e, srv1) \<Rightarrow> (Inl (Error ''Failed to fetch weather data''), srv1)
      | (Inr r, srv1) \<Rightarrow> (Inr r, srv1))"

section \<open>Route handlers\<close>

text \<open>
  Every handler below runs behind \<open>authenticateToken\<close>: \<open>userId\<close> is the identity the
  verified token carries. The record id of the path is a number. The database answers
  every statement (no connection failure), except where noted.
\<close>

definition server_error :: "string \<Rightarrow> response" where
  "server_error m = \<lparr>status = 500, body = ErrorBody m\<rparr>"

definition not_found :: response where
  "not_found = \<lparr>status = 404, body = ErrorBody ''Weather record not found''\<rparr>"

text \<open>\<open>Math.ceil((end - start) / (1000 * 60 * 60 * 24)) + 1\<close>, \<open>NaN\<close> when a date is invalid.\<close>

definition ceil_div :: "int \<Rightarrow> int \<Rightarrow> int" where
  "ceil_div a b = - ((- a) div b)"

fun daysDiff :: "int option \<Rightarrow> int option \<Rightarrow> int option" where
  "daysDiff (Some start) (Some end) = Some (ceil_div (end - start) (1000 * 60 * 60 * 24) + 1)"
| "daysDiff _ _ = None"

text \<open>\<open>WHERE id = $1 AND user_id = $2\<close> and \<open>WHERE user_id = $1\<close>.\<close>

definition matches :: "nat \<Rightarrow> nat \<Rightarrow> weather_record \<Rightarrow> bool" where
  "matches rid userId r \<longleftrightarrow> rec_id r = rid \<and> rec_user_id r = userId"



text \<open>\<open>POST /api/weather-records\<close>, after \<open>validateWeatherData\<close>.\<close>

definition post_weather_records ::
  "platform \<Rightarrow> upstream \<Rightarrow> int \<Rightarrow> server \<Rightarrow> nat \<Rightarrow> weather_body \<Rightarrow> response \<times> server" where
  "post_weather_records pf gw now srv userId b =
     (case validateWeatherData pf now b of
        Inl r \<Rightarrow> (r, srv)
      | Inr _ \<Rightarrow>
          (case (location b, startDate b, endDate b) of
             (Some loc, Some sd, Some ed) \<Rightarrow>
               (case getWeatherData gw srv loc (daysDiff (newDate pf sd) (newDate pf ed)) of
                  (Inl e, srv1) \<Rightarrow> (server_error (message e), srv1)
                | (Inr weatherData, srv1) \<Rightarrow>
                    (case getLocationDetails gw srv1 loc of
                       (Inl e, srv2) \<Rightarrow> (server_error (message e), srv2)
                     | (Inr mapsData, srv2) \<Rightarrow>
                         (\<lparr>status = 201,
                           body = CreatedBody ''Weather record created successfully''
                             \<lparr>sv_id = next_record_id srv2, sv_location = wr_location weatherData,
                              sv_start_date = sd, sv_end_date = ed, sv_stamp = now,
                              sv_weather_data = weatherData, sv_maps_data = mapsData\<rparr>\<rparr>,
                          srv2\<lparr>weather_records := weather_records srv2 @
                                 [\<lparr>rec_id = next_record_id srv2, rec_user_id = userId,
                                   rec_location = wr_location weatherData,
                                   rec_start_date = sd, rec_end_date = ed,
                                   rec_weather_data = weatherData, rec_maps_data = mapsData,
                                   rec_created_at = now, rec_updated_at = now\<rparr>],
                               next_record_id := next_record_id srv2 + 1,
                               writes := writes srv2 + 1\<rparr>)))
           | _ \<Rightarrow> (server_error (message TypeError), srv)))"





text \<open>\<open>PUT /api/weather-records/:id\<close>, after \<open>validateWeatherData\<close>.\<close>

definition put_weather_record ::
  "platform \<Rightarrow> upstream \<Rightarrow> int \<Rightarrow> server \<Rightarrow> nat \<Rightarrow> nat \<Rightarrow> weather_body \<Rightarrow> response \<times> server" where
  "put_weather_record pf gw now srv userId rid b =
     (case validateWeatherData pf now b of
        Inl r \<Rightarrow> (r, srv)
      | Inr _ \<Rightarrow>
          (case (location b, startDate b, endDate b) of
             (Some loc, Some sd, Some ed) \<Rightarrow>
               if filter (matches rid userId) (weather_records srv) = [] then (not_found, srv)
               else
                 (case getWeatherData gw srv loc (daysDiff (newDate pf sd) (newDate pf ed)) of
                    (Inl e, srv1) \<Rightarrow> (server_error (message e), srv1)
                  | (Inr weatherData, srv1) \<Rightarrow>
                      (case getLocationDetails gw srv1 loc of
                         (Inl e, srv2) \<Rightarrow> (server_error (message e), srv2)
                       | (Inr mapsData, srv2) \<Rightarrow>
                           (\<lparr>status = 200,
                             body = UpdatedBody ''Weather record updated successfully''
                               \<lparr>sv_id = rid, sv_location = wr_location weatherData,
                                sv_start_date = sd, sv_end_date = ed, sv_stamp = now,
                                sv_weather_data = weatherData, sv_maps_data = mapsData\<rparr>\<rparr>,
                            srv2\<lparr>weather_records :=
                                   map (\<lambda>r. if matches rid userId r
                                             then r\<lparr>rec_location := wr_location weatherData,
                                                    rec_start_date := sd, rec_end_date := ed,
                                                    rec_weather_data := weatherData,
                                                    rec_maps_data := mapsData,
                                                    rec_updated_at := now\<rparr>
                                             else r)
                                       (weather_records srv2),
                                 writes := writes srv2 + 1\<rparr>)))
           | _ \<Rightarrow> (server_error (message TypeError), srv)))"

text \<open>\<open>DELETE /api/weather-records/:id\<close>.\<close>

definition delete_weather_record :: "server \<Rightarrow> nat \<Rightarrow> nat \<Rightarrow> response \<times> server" where
  "delete_weather_record srv userId rid =
     (let srv1 = srv\<lparr>weather_records := filter (\<lambda>r. \<not> matches rid userId r) (weather_records srv),
                    writes := writes srv + 1\<rparr>
      in if filter (matches rid userId) (weather_records srv) = [] then (not_found, srv1)
         else (\<lparr>status = 200, body = MessageBody ''Weather record deleted successfully''\<rparr>, srv1))"





text \<open>
  \<open>id SERIAL PRIMARY KEY\<close>: the ids of the table are pairwise different and below the
  next value of the sequence.
\<close>

definition primary_key :: "server \<Rightarrow> bool" where
  "primary_key srv \<longleftrightarrow>
     distinct (map rec_id (weather_records srv)) \<and>
     list_all (\<lambda>r. rec_id r < next_record_id srv) (weather_records srv)"

section \<open>The validation order, as the specification words it\<close>







section \<open>Example data\<close>


definition paris :: geo_candidate where
  "paris = \<lparr>geo_name = ''Paris'', geo_state = Some ''Ile-de-France'', geo_country = ''FR'',
            geo_lat = 4886 / 100, geo_lon = 235 / 100\<rparr>"

definition demo_item :: forecast_item where
  "demo_item =
     \<lparr>dt_txt = ''2024-06-01 12:00:00'', main_temp = 293 / 10, main_feels_like = 28,
      main_humidity = 60, main_pressure = 1015, item_wind_speed = 3, item_wind_deg = 200,
      weather = [\<lparr>w_main = ''Clouds'', w_description = ''broken clouds'', w_icon = ''04d''\<rparr>],
      item_visibility = 10000, clouds_all = 75\<rparr>"

definition demo_sample :: sample where
  "demo_sample =
     \<lparr>date = Some ''2024-06-01'', time = Some ''12:00:00'', temperature = 29, feels_like = 28,
      humidity = 60, pressure = 1015, wind_speed = 3, wind_direction = 200,
      weather_main = ''Clouds'', weather_description = ''broken clouds'', weather_icon = ''04d'',
      visibility = 10, clouds = 75\<rparr>"

text \<open>
  Gateways: one that knows Paris and has ten forecast samples, one whose requests all
  fail, and one with no key.
\<close>

definition gw_up :: upstream where
  "gw_up =
     \<lparr>api_key = Some ''key'',
      geo_direct = (\<lambda>n q. if q = ''Paris'' then Ok [paris] else Ok []),
      forecast = (\<lambda>n la lo. Ok (replicate 10 demo_item))\<rparr>"

definition gw_down :: upstream where
  "gw_down = gw_up\<lparr>geo_direct := (\<lambda>n q. Failed), forecast := (\<lambda>n la lo. Failed)\<rparr>"

definition gw_nokey :: upstream where
  "gw_nokey = gw_up\<lparr>api_key := None\<rparr>"

definition demo_weather :: weather_result where
  "demo_weather =
     \<lparr>wr_location = ''Paris'', wr_country = ''FR'',
      wr_coordinates = \<lparr>lat = 4886 / 100, lon = 235 / 100\<rparr>, weather_data = [demo_sample]\<rparr>"


definition demo_server :: "weather_record list \<Rightarrow> server" where
  "demo_server rows =
     \<lparr>users = [\<lparr>usr_id = 1, usr_username = ''alice'', usr_email = ''a@x.com'',
                 usr_password_hash = ''hash:secret1''\<rparr>],
      weather_records = rows, next_record_id = Suc (length rows),
      geo_calls = 0, forecast_calls = 0, writes = 0\<rparr>"



section \<open>Properties of the validation middleware\<close>




lemma validate_accepts_fields:
  "validateWeatherData pf now b = Inr u \<Longrightarrow>
   \<exists>loc sd ed. location b = Some loc \<and> startDate b = Some sd \<and> endDate b = Some ed"
  by (auto simp: validateWeatherData_def present_and_def Let_def split: if_splits option.splits)











section \<open>Properties of the gateway\<close>

lemma map_throwing_Some_iff:
  "map_throwing f xs = Some ys \<longleftrightarrow> map f xs = map Some ys"
proof (induction xs arbitrary: ys)
  case Nil
  show ?case by auto
next
  case (Cons x xs)
  show ?case
  proof (cases ys)
    case Nil
    then show ?thesis by (auto split: option.splits)
  next
    case (Cons z zs)
    then show ?thesis using Cons.IH[of zs] by (auto split: option.splits)
  qed
qed

lemma map_throwing_defined:
  "(\<forall>x \<in> set xs. f x \<noteq> None) \<Longrightarrow> \<exists>ys. map_throwing f xs = Some ys"
  by (induction xs) auto

lemma toSample_defined: "weather item \<noteq> [] \<Longrightarrow> toSample item \<noteq> None"
  by (simp add: toSample_def split: list.splits)


lemma getWeatherData_keeps_tables:
  "weather_records (snd (getWeatherData gw srv loc days)) = weather_records srv \<and>
   writes (snd (getWeatherData gw srv loc days)) = writes srv \<and>
   users (snd (getWeatherData gw srv loc days)) = users srv \<and>
   next_record_id (snd (getWeatherData gw srv loc days)) = next_record_id srv"
  by (auto simp: getWeatherData_def getWeatherData_try_def Let_def
      split: prod.splits sum.splits http.splits list.splits option.splits)

lemma getLocationDetails_keeps_tables:
  "weather_records (snd (getLocationDetails gw srv loc)) = weather_records srv \<and>
   writes (snd (getLocationDetails gw srv loc)) = writes srv \<and>
   users (snd (getLocationDetails gw srv loc)) = users srv \<and>
   next_record_id (snd (getLocationDetails gw srv loc)) = next_record_id srv"
  by (auto simp: getLocationDetails_def getLocationDetails_try_def Let_def
      split: prod.splits sum.splits http.splits list.splits)

lemma getLocationDetails_total:
  "\<exists>d. fst (getLocationDetails gw srv loc) = Inr d"
  by (auto simp: getLocationDetails_def getLocationDetails_try_def Let_def
      split: http.splits list.splits)

lemma getLocationDetails_degraded:
  "no_key (api_key gw) \<or> geo_direct gw (geo_calls srv) loc = Failed
     \<or> geo_direct gw (geo_calls srv) loc = Ok [] \<Longrightarrow>
   fst (getLocationDetails gw srv loc) = Inr (fallback_details loc)"
  by (auto simp: getLocationDetails_def getLocationDetails_try_def Let_def
      split: http.splits list.splits)


lemma getWeatherData_success:
  assumes k: "\<not> no_key (api_key gw)"
    and g: "geo_direct gw (geo_calls srv) loc = Ok (c # cs)"
    and f: "forecast gw (forecast_calls srv) (geo_lat c) (geo_lon c) = Ok items"
    and m: "map_throwing toSample (slice0 items (times8 days)) = Some samples"
  shows "fst (getWeatherData gw srv loc days) =
           Inr \<lparr>wr_location = geo_name c, wr_country = geo_country c,
                wr_coordinates = \<lparr>lat = geo_lat c, lon = geo_lon c\<rparr>,
                weather_data = samples\<rparr>"
  using assms by (simp add: getWeatherData_def getWeatherData_try_def Let_def)

section \<open>Properties of the handlers\<close>





text \<open>
  The geocoding request of \<open>getLocationDetails\<close> is a request of its own. When it fails
  after the forecast fetch has succeeded, the update goes through and stores the basic
  details: a failure of that request is absorbed, not reported.
\<close>

lemma updated_rows_maps_data:
  "list_all (\<lambda>r. matches rid userId r \<longrightarrow> rec_maps_data r = m)
     (map (\<lambda>r. if matches rid userId r
               then r\<lparr>rec_location := l, rec_start_date := sd, rec_end_date := ed,
                      rec_weather_data := wd, rec_maps_data := m, rec_updated_at := now\<rparr>
               else r) rows)"
  by (induction rows) (auto simp: matches_def)

lemma put_degrades_location_details:
  assumes v: "validateWeatherData pf now b = Inr ()"
    and f: "location b = Some loc" "startDate b = Some sd" "endDate b = Some ed"
    and o: "filter (matches rid userId) (weather_records srv) \<noteq> []"
    and g: "getWeatherData gw srv loc (daysDiff (newDate pf sd) (newDate pf ed)) = (Inr wd, srv1)"
    and l: "geo_direct gw (geo_calls srv1) loc = Failed"
  shows "status (fst (put_weather_record pf gw now srv userId rid b)) = 200 \<and>
         list_all (\<lambda>r. matches rid userId r \<longrightarrow> rec_maps_data r = fallback_details loc)
           (weather_records (snd (put_weather_record pf gw now srv userId rid b)))"
proof -
  obtain srv2 where d: "getLocationDetails gw srv1 loc = (Inr (fallback_details loc), srv2)"
    using getLocationDetails_degraded[of gw srv1 loc] l
    by (cases "getLocationDetails gw srv1 loc") auto
  show ?thesis using v f o g d
    by (simp add: put_weather_record_def updated_rows_maps_data)
qed

text \<open>Every handler keeps the primary key of the record table.\<close>

lemma primary_key_tables:
  assumes "primary_key srv"
    and "weather_records s2 = weather_records srv \<and> next_record_id s2 = next_record_id srv"
  shows "primary_key s2"
  using assms by (simp add: primary_key_def)

lemma primary_key_insert:
  assumes "primary_key srv"
    and "weather_records s2 = weather_records srv \<and> next_record_id s2 = next_record_id srv"
    and "rec_id new = next_record_id s2"
  shows "primary_key (s2\<lparr>weather_records := weather_records s2 @ [new],
                         next_record_id := Suc (next_record_id s2), writes := w\<rparr>)"
proof -
  from assms(1) have d: "distinct (map rec_id (weather_records srv))"
    and b: "\<forall>r \<in> set (weather_records srv). rec_id r < next_record_id srv"
    by (simp_all add: primary_key_def list_all_iff)
  from b have "next_record_id srv \<notin> rec_id ` set (weather_records srv)" by auto
  moreover from b have "\<forall>r \<in> set (weather_records srv). rec_id r < Suc (next_record_id srv)"
    by auto
  ultimately show ?thesis using d assms(2,3) by (simp add: primary_key_def list_all_iff)
qed

lemma primary_key_post:
  assumes pk: "primary_key srv"
  shows "primary_key (snd (post_weather_records pf gw now srv userId b))"
proof (cases "validateWeatherData pf now b")
  case (Inl r)
  then show ?thesis using pk by (simp add: post_weather_records_def)
next
  case (Inr u)
  from validate_accepts_fields[OF Inr] obtain loc sd ed where
    f: "location b = Some loc" "startDate b = Some sd" "endDate b = Some ed" by blast
  let ?d = "daysDiff (newDate pf sd) (newDate pf ed)"
  obtain res srv1 where g: "getWeatherData gw srv loc ?d = (res, srv1)"
    by (cases "getWeatherData gw srv loc ?d")
  have k1: "weather_records srv1 = weather_records srv \<and> next_record_id srv1 = next_record_id srv"
    using getWeatherData_keeps_tables[of gw srv loc ?d] g by simp
  obtain res2 srv2 where l: "getLocationDetails gw srv1 loc = (res2, srv2)"
    by (cases "getLocationDetails gw srv1 loc")
  have k2: "weather_records srv2 = weather_records srv \<and> next_record_id srv2 = next_record_id srv"
    using getLocationDetails_keeps_tables[of gw srv1 loc] l k1 by simp
  show ?thesis
  proof (cases res)
    case (Inl e)
    then show ?thesis using Inr f g primary_key_tables[OF pk k1]
      by (simp add: post_weather_records_def)
  next
    case wd: (Inr weatherData)
    show ?thesis
    proof (cases res2)
      case (Inl e)
      then show ?thesis using Inr f g l wd primary_key_tables[OF pk k2]
        by (simp add: post_weather_records_def)
    next
      case md: (Inr mapsData)
      show ?thesis using Inr f g l wd md
        by (simp add: post_weather_records_def primary_key_insert[OF pk k2])
    qed
  qed
qed

lemma primary_key_update:
  assumes "primary_key srv"
    and "weather_records s2 = weather_records srv \<and> next_record_id s2 = next_record_id srv"
    and "\<forall>r. rec_id (upd r) = rec_id r"
  shows "primary_key (s2\<lparr>weather_records := map upd (weather_records s2), writes := w\<rparr>)"
proof -
  from assms(3) have "map rec_id (map upd (weather_records s2)) = map rec_id (weather_records s2)"
    by simp
  then show ?thesis using assms by (simp add: primary_key_def list_all_iff del: map_map)
qed

lemma primary_key_put:
  assumes pk: "primary_key srv"
  shows "primary_key (snd (put_weather_record pf gw now srv userId rid b))"
proof (cases "validateWeatherData pf now b")
  case (Inl r)
  then show ?thesis using pk by (simp add: put_weather_record_def)
next
  case (Inr u)
  from validate_accepts_fields[OF Inr] obtain loc sd ed where
    f: "location b = Some loc" "startDate b = Some sd" "endDate b = Some ed" by blast
  let ?d = "daysDiff (newDate pf sd) (newDate pf ed)"
  obtain res srv1 where g: "getWeatherData gw srv loc ?d = (res, srv1)"
    by (cases "getWeatherData gw srv loc ?d")
  have k1: "weather_records srv1 = weather_records srv \<and> next_record_id srv1 = next_record_id srv"
    using getWeatherData_keeps_tables[of gw srv loc ?d] g by simp
  obtain res2 srv2 where l: "getLocationDetails gw srv1 loc = (res2, srv2)"
    by (cases "getLocationDetails gw srv1 loc")
  have k2: "weather_records srv2 = weather_records srv \<and> next_record_id srv2 = next_record_id srv"
    using getLocationDetails_keeps_tables[of gw srv1 loc] l k1 by simp
  show ?thesis
  proof (cases "filter (matches rid userId) (weather_records srv) = []")
    case True
    then show ?thesis using Inr f pk by (simp add: put_weather_record_def)
  next
    case False
    show ?thesis
    proof (cases res)
      case (Inl e)
      then show ?thesis using Inr f g False primary_key_tables[OF pk k1]
        by (simp add: put_weather_record_def)
    next
      case wd: (Inr weatherData)
      show ?thesis
      proof (cases res2)
        case (Inl e)
        then show ?thesis using Inr f g l wd False primary_key_tables[OF pk k2]
          by (simp add: put_weather_record_def)
      next
        case md: (Inr mapsData)
        show ?thesis using Inr f g l wd md False
          by (simp add: put_weather_record_def primary_key_update[OF pk k2])
      qed
    qed
  qed
qed

lemma primary_key_delete:
  assumes "primary_key srv"
  shows "primary_key (snd (delete_weather_record srv userId rid))"
  using assms
  by (auto simp: delete_weather_record_def Let_def primary_key_def list_all_iff distinct_map_filter)







section \<open>Claims\<close>

text \<open>
  C1. The claim: when the geocoding step finds no candidate, \<open>getWeatherData\<close> fails with
  "Location not found", any other failure gives a generic error, and the caller can tell
  the two apart. The code throws \<open>new Error('Location not found')\<close> inside its own \<open>try\<close>
  block, and the \<open>catch\<close> block of the same function replaces it: for the place
  "Atlantis", which the geocoder does not know, the \<open>try\<close> block ends with "Location not
  found", and the caller receives "Failed to fetch weather data", the very error it
  receives when every request fails.
\<close>

theorem getWeatherData_masks_location_not_found:
  "geo_direct gw_up (geo_calls (demo_server [])) ''Atlantis'' = Ok [] \<and>
   fst (getWeatherData_try gw_up (demo_server []) ''Atlantis'' (Some 3)) =
     Inl (Error ''Location not found'') \<and>
   fst (getWeatherData gw_up (demo_server []) ''Atlantis'' (Some 3)) =
     Inl (Error ''Failed to fetch weather data'') \<and>
   fst (getWeatherData gw_down (demo_server []) ''Atlantis'' (Some 3)) =
     Inl (Error ''Failed to fetch weather data'')"
  by (simp add: getWeatherData_def getWeatherData_try_def gw_up_def gw_down_def demo_server_def
      no_key_def)







text \<open>
  C6. The claim: for every forecast fetch of \<open>d\<close> days the number of samples returned is
  the minimum of the number of upstream samples and \<open>8 * d\<close>. The forecast route passes
  \<open>parseInt(req.query.days) || 5\<close> on, which may be negative, and \<open>slice(0, -8)\<close> drops the
  last eight samples: with ten upstream samples and \<open>d = -1\<close> the fetch returns two
  samples, which is not the minimum of 10 and -8.
\<close>

theorem negative_days_counterexample:
  "forecast gw_up 0 (4886 / 100) (235 / 100) = Ok (replicate 10 demo_item) \<and>
   fst (getWeatherData gw_up (demo_server []) ''Paris'' (Some (- 1))) =
     Inr (demo_weather\<lparr>weather_data := [demo_sample, demo_sample]\<rparr>) \<and>
   int (length [demo_sample, demo_sample]) \<noteq> min (int (length (replicate 10 demo_item))) (- 1 * 8)"
  by (simp add: getWeatherData_def getWeatherData_try_def gw_up_def demo_server_def no_key_def
      times8_def slice0_def paris_def demo_weather_def demo_item_def demo_sample_def toSample_def
      Math_round_def eval_nat_numeral)

text \<open>
  C6, amended. For every forecast fetch of \<open>d \<ge> 0\<close> days that the gateway answers (key
  configured, a geocoding candidate found, forecast list received, every sample of the
  slice with a weather entry), the fetch succeeds, the number of samples returned is the
  minimum of the number of upstream samples and \<open>8 * d\<close>, and the samples are the images
  of the first upstream items, in upstream order: nothing is padded or interpolated.
\<close>

theorem forecast_sample_count:
  assumes "0 \<le> d"
    and "\<not> no_key (api_key gw)"
    and "geo_direct gw (geo_calls srv) loc = Ok (c # cs)"
    and "forecast gw (forecast_calls srv) (geo_lat c) (geo_lon c) = Ok items"
    and "\<forall>i \<in> set (take (nat (d * 8)) items). weather i \<noteq> []"
  shows "\<exists>r. fst (getWeatherData gw srv loc (Some d)) = Inr r \<and>
             length (weather_data r) = min (length items) (nat (d * 8)) \<and>
             map Some (weather_data r) = map toSample (take (nat (d * 8)) items)"
proof -
  have s: "slice0 items (times8 (Some d)) = take (nat (d * 8)) items"
    using assms(1) by (simp add: slice0_def times8_def)
  have "\<forall>i \<in> set (take (nat (d * 8)) items). toSample i \<noteq> None"
    using assms(5) by (simp add: toSample_defined)
  then obtain samples where
    m: "map_throwing toSample (take (nat (d * 8)) items) = Some samples"
    using map_throwing_defined by blast
  then have e: "map toSample (take (nat (d * 8)) items) = map Some samples"
    by (simp add: map_throwing_Some_iff)
  then have "length (map toSample (take (nat (d * 8)) items)) = length (map Some samples)"
    by simp
  then have l: "length samples = min (length items) (nat (d * 8))" by simp
  from m s have "map_throwing toSample (slice0 items (times8 (Some d))) = Some samples"
    by simp
  from getWeatherData_success[OF assms(2) assms(3) assms(4) this] e l
  show ?thesis by simp
qed

theorem forecast_sample_count_witness:
  "(\<exists>r. fst (getWeatherData gw_up (demo_server []) ''Paris'' (Some 1)) = Inr r \<and>
        length (weather_data r) = 8 \<and>
        map Some (weather_data r) = map toSample (take 8 (replicate 10 demo_item))) \<and>
   (\<exists>r. fst (getWeatherData gw_up (demo_server []) ''Paris'' (Some 3)) = Inr r \<and>
        length (weather_data r) = 10 \<and>
        map Some (weather_data r) = map toSample (replicate 10 demo_item))"
proof -
  let ?srv = "demo_server []"
  have k: "\<not> no_key (api_key gw_up)" by (simp add: gw_up_def no_key_def)
  have g: "geo_direct gw_up (geo_calls ?srv) ''Paris'' = Ok (paris # [])"
    by (simp add: gw_up_def)
  have f: "forecast gw_up (forecast_calls ?srv) (geo_lat paris) (geo_lon paris)
      = Ok (replicate 10 demo_item)"
    by (simp add: gw_up_def)
  have w: "\<forall>i \<in> set (take (nat (d * 8)) (replicate 10 demo_item)). weather i \<noteq> []" for d :: int
    by (auto simp: demo_item_def dest: in_set_takeD)
  have a: "\<exists>r. fst (getWeatherData gw_up ?srv ''Paris'' (Some 1)) = Inr r \<and>
        length (weather_data r) = 8 \<and>
        map Some (weather_data r) = map toSample (take 8 (replicate 10 demo_item))"
    using forecast_sample_count[OF _ k g f w, of 1] by simp
  have b: "\<exists>r. fst (getWeatherData gw_up ?srv ''Paris'' (Some 3)) = Inr r \<and>
        length (weather_data r) = 10 \<and>
        map Some (weather_data r) = map toSample (replicate 10 demo_item)"
    using forecast_sample_count[OF _ k g f w, of 3] by simp
  from a b show ?thesis by blast
qed










text \<open>
  C10. \<open>getLocationDetails\<close> never throws: for every place name, every state and every
  gateway it returns an object with the fields \<open>city\<close>, \<open>state\<close>, \<open>country\<close> and
  \<open>formatted_address\<close>. When the key is missing, when the geocoding request fails and when
  it finds no candidate, that object is the fallback: the city and the formatted address
  are the input, the state is empty and the country is "Unknown".
\<close>

theorem getLocationDetails_never_throws:
  "(\<exists>d. fst (getLocationDetails gw srv loc) = Inr d) \<and>
   (no_key (api_key gw) \<or> geo_direct gw (geo_calls srv) loc = Failed
      \<or> geo_direct gw (geo_calls srv) loc = Ok [] \<longrightarrow>
    fst (getLocationDetails gw srv loc) =
      Inr \<lparr>city = loc, state = [], country = ''Unknown'', formatted_address = loc,
           ld_coordinates = None\<rparr>)"
  using getLocationDetails_total[of gw srv loc] getLocationDetails_degraded[of gw srv loc]
  by (simp add: fallback_details_def)

theorem getLocationDetails_never_throws_witness:
  "geo_direct gw_down (geo_calls (demo_server [])) ''Paris'' = Failed \<and>
   fst (getLocationDetails gw_down (demo_server []) ''Paris'') =
     Inr \<lparr>city = ''Paris'', state = [], country = ''Unknown'', formatted_address = ''Paris'',
          ld_coordinates = None\<rparr> \<and>
   no_key (api_key gw_nokey) \<and>
   fst (getLocationDetails gw_nokey (demo_server []) ''Paris'') =
     Inr \<lparr>city = ''Paris'', state = [], country = ''Unknown'', formatted_address = ''Paris'',
          ld_coordinates = None\<rparr>"
  using getLocationDetails_never_throws[of gw_down "demo_server []" "''Paris''"]
    getLocationDetails_never_throws[of gw_nokey "demo_server []" "''Paris''"]
  by (simp add: gw_down_def gw_nokey_def gw_up_def no_key_def)

end
